theory Spec2Isabelle
  imports Main "HOL-Library.Word"
begin

unbundle bit_operations_syntax

section \<open>Shared data: bytes, errors, faults\<close>

type_synonym byte = "8 word"

text \<open>
  Go errors are values. The constructors below are the error values the modelled
  functions create (\<open>fmt.Errorf\<close> with its argument, \<open>errors.New\<close>), the ones they pass
  on from package \<open>io\<close>, and the sentinels of package \<open>insteon\<close> they return.
\<close>

datatype error =
    ErrExpectedStart byte       \<comment> \<open>"Expected first byte to be 0x02 got 0x.."\<close>
  | ErrUnknownCommand byte      \<comment> \<open>"PLM Received unknown command 0x.."\<close>
  | EOF                         \<comment> \<open>io.EOF\<close>
  | ErrUnexpectedEOF            \<comment> \<open>io.ErrUnexpectedEOF\<close>
  | ErrShortBuffer              \<comment> \<open>io.ErrShortBuffer\<close>
  | ErrUnmarshal                \<comment> \<open>an error of an UnmarshalBinary method\<close>
  | ErrAckTimeout               \<comment> \<open>insteon.ErrAckTimeout\<close>
  | ErrWriteTimeout             \<comment> \<open>insteon.ErrWriteTimeout\<close>
  | ErrReadTimeout              \<comment> \<open>insteon.ErrReadTimeout\<close>
  | ErrAddLink                  \<comment> \<open>"Failed to add link back to ALDB"\<close>

text \<open>A run-time panic of the Go program ends the function without a return value.\<close>

datatype fault =
    NilPointerDereference
  | InterfaceConversion
  | IndexOutOfRange
  | SendOnClosedChannel

text \<open>
  The error taxonomy of the design: a framing error is a bad start byte, an unknown
  command or a short read.
\<close>

fun framing_error :: "error \<Rightarrow> bool" where
  "framing_error (ErrExpectedStart b) = True"
| "framing_error (ErrUnknownCommand b) = True"
| "framing_error EOF = True"
| "framing_error ErrUnexpectedEOF = True"
| "framing_error e = False"

section \<open>Link records\<close>

text \<open>
  Modelled from the spec: the type \<open>insteon.LinkRecord\<close>, its flags and its methods
  \<open>Equal\<close>, \<open>MarshalBinary\<close> and \<open>UnmarshalBinary\<close> are declared outside the given
  sources. A link record is "a controller/responder flag, a group number, a peer
  address, and auxiliary data bytes", and "equality is defined as: same group, same
  address, same direction flag, same data". The flag lives in a flags byte (bit 6),
  the address and the data are three bytes each, and a record travels as eight bytes:
  flags, group, address, data.
\<close>

type_synonym bytes3 = "byte \<times> byte \<times> byte"

record LinkRecord =
  Flags :: byte
  Group :: byte
  Address :: bytes3
  Data :: bytes3

definition Controller :: "byte \<Rightarrow> bool" where
  "Controller f = (f AND 0x40 \<noteq> 0)"

definition Equal :: "LinkRecord \<Rightarrow> LinkRecord \<Rightarrow> bool" where
  "Equal l other =
     (Group l = Group other \<and> Address l = Address other \<and>
      Controller (Flags l) = Controller (Flags other) \<and> Data l = Data other)"

definition LinkRecord_MarshalBinary :: "LinkRecord \<Rightarrow> byte list \<times> error option" where
  "LinkRecord_MarshalBinary l =
     (case (Address l, Data l) of
        ((a1, a2, a3), (d1, d2, d3)) \<Rightarrow> ([Flags l, Group l, a1, a2, a3, d1, d2, d3], None))"

fun LinkRecord_UnmarshalBinary :: "byte list \<Rightarrow> error + LinkRecord" where
  "LinkRecord_UnmarshalBinary (f # g # a1 # a2 # a3 # d1 # d2 # d3 # rest) =
     Inr \<lparr>Flags = f, Group = g, Address = (a1, a2, a3), Data = (d1, d2, d3)\<rparr>"
| "LinkRecord_UnmarshalBinary buf = Inl ErrUnmarshal"

section \<open>Packets\<close>

text \<open>
  Modelled from the spec: the type \<open>Packet\<close> and its methods are declared outside the
  given sources. A packet has "a one-byte command identifier", "a payload whose shape
  depends on the command (an Insteon message, a link record, modem info, or raw
  bytes)" and a retry counter; "acknowledgement/negative-acknowledgement is encoded as
  a trailing status byte within the same command's reply frame". The sources read the
  fields \<open>retryCount\<close>, \<open>Command\<close>, \<open>payload\<close> (raw bytes) and \<open>Payload\<close> (the decoded
  value, a Go interface), and call \<open>NAK()\<close>. Of an Insteon message the Dispatcher reads
  the source address only.
\<close>

record Message =
  Src :: bytes3
  Dst :: bytes3

datatype IMInfo = IMInfo "byte list"

datatype Payload_t =
    NilPayload                        \<comment> \<open>the nil interface value\<close>
  | MessagePayload Message            \<comment> \<open>*insteon.Message\<close>
  | LinkPayload LinkRecord            \<comment> \<open>*insteon.LinkRecord\<close>
  | IMInfoPayload IMInfo              \<comment> \<open>*IMInfo\<close>
  | BytesPayload "byte list"

record Packet =
  retryCount :: int
  Command :: byte
  payload :: "byte list"
  Payload :: Payload_t
  Ack :: byte

text \<open>The Go composite literal \<open>&Packet{...}\<close>: fields left out hold their zero value.\<close>

definition Packet0 :: Packet where
  "Packet0 = \<lparr>retryCount = 0, Command = 0, payload = [], Payload = NilPayload, Ack = 0\<rparr>"

text \<open>
  Modelled from the spec: \<open>Packet.NAK\<close> reads the status byte of its receiver (0x15 is
  the negative acknowledgement), so on a nil \<open>*Packet\<close> it dereferences nil. A
  \<open>*Packet\<close> is a \<open>Packet option\<close>, \<open>None\<close> the nil pointer.
\<close>

definition NAK :: "Packet option \<Rightarrow> fault + bool" where
  "NAK p = (case p of None \<Rightarrow> Inl NilPointerDereference | Some q \<Rightarrow> Inr (Ack q = 0x15))"

section \<open>Frame decoding: PLM.readPacket\<close>

text \<open>
  The input \<open>plm.in\<close> is the list of the bytes still to come; every read returns its
  result and the rest of the stream. \<open>ReadByte\<close> is \<open>bufio.Reader.ReadByte\<close>: at the end
  of the stream it returns the zero byte and \<open>io.EOF\<close>.
\<close>

definition ReadByte :: "byte list \<Rightarrow> (byte \<times> error option) \<times> byte list" where
  "ReadByte inp = (case inp of [] \<Rightarrow> ((0, Some EOF), []) | b # rest \<Rightarrow> ((b, None), rest))"

text \<open>
  \<open>io.ReadAtLeast(r, buf, min)\<close> fails with \<open>ErrShortBuffer\<close>, reading nothing, when
  \<open>buf\<close> is shorter than \<open>min\<close>; otherwise it calls \<open>Read\<close> until \<open>min\<close> bytes are in
  \<open>buf\<close> (not at all when \<open>min\<close> is 0). A \<open>Read\<close> here delivers as many of the bytes
  to come as \<open>buf\<close> has room for. The result is the new content of \<open>buf\<close>, the error,
  and the rest of the stream.
\<close>

definition ReadAtLeast ::
  "byte list \<Rightarrow> byte list \<Rightarrow> nat \<Rightarrow> (byte list \<times> error option) \<times> byte list" where
  "ReadAtLeast inp buf m =
     (if length buf < m then ((buf, Some ErrShortBuffer), inp)
      else if m = 0 then ((buf, None), inp)
      else
        (let n = min (length buf) (length inp) in
         ((take n inp @ drop n buf,
           if m \<le> n then None else if n = 0 then Some EOF else Some ErrUnexpectedEOF),
          drop n inp)))"

text \<open>
  \<open>readPacket\<close>. The command length table \<open>commandLens\<close>, \<open>insteon.Flags.IsExtended\<close> and
  \<open>Packet.UnmarshalBinary\<close> are declared outside the given sources and are parameters
  here. The table maps a command byte to the number of bytes after the two-byte
  header. The variable \<open>buf\<close> of the source is rebound at each assignment; a read into
  a slice of \<open>buf\<close> writes into \<open>buf\<close>. Trace output is left out.
\<close>

definition readPacket ::
  "(byte \<rightharpoonup> nat) \<Rightarrow> (byte \<Rightarrow> bool) \<Rightarrow> (byte list \<Rightarrow> Packet \<times> error option) \<Rightarrow>
   byte list \<Rightarrow> (fault + (Packet option \<times> error option)) \<times> byte list" where
  "readPacket commandLens IsExtended UnmarshalBinary inp =
     (case ReadByte inp of ((b0, err0), inp1) \<Rightarrow>
        if err0 = None \<and> b0 \<noteq> 0x02 then (Inr (None, Some (ErrExpectedStart b0)), inp1)
        else
          (case ReadByte inp1 of ((b, err1), inp2) \<Rightarrow>
             if err1 = None then
               (case commandLens b of
                  Some packetLen \<Rightarrow>
                    (case ReadAtLeast inp2 (replicate packetLen 0) packetLen of
                       ((rd, err2), inp3) \<Rightarrow>
                         (let buf = [b0, b] @ rd in
                          if err2 = None then
                            (if buf ! 1 = 0x62 then
                               (if 5 < length buf then
                                  (if IsExtended (buf ! 5) then
                                     (case ReadAtLeast inp3 (drop 9 (buf @ replicate 14 0)) 14 of
                                        ((rd', err3), inp4) \<Rightarrow>
                                          (case UnmarshalBinary (take 9 (buf @ replicate 14 0) @ rd') of
                                             (packet, err) \<Rightarrow> (Inr (Some packet, err), inp4)))
                                   else
                                     (case UnmarshalBinary buf of
                                        (packet, err) \<Rightarrow> (Inr (Some packet, err), inp3)))
                                else (Inl IndexOutOfRange, inp3))
                             else
                               (case UnmarshalBinary buf of
                                  (packet, err) \<Rightarrow> (Inr (Some packet, err), inp3)))
                          else (Inr (None, err2), inp3)))
                | None \<Rightarrow> (Inr (None, Some (ErrUnknownCommand b)), inp2))
             else (Inr (None, err1), inp2)))"

section \<open>The request/response facade: PLM.Send and PLM.Info\<close>

text \<open>
  \<open>PLM.Send\<close> waits in two nested \<open>select\<close> statements, each against
  \<open>time.After(plm.timeout)\<close>: first for \<open>plm.txPktCh\<close> to take the request, then for the
  reply on the fresh channel \<open>ackCh\<close>. What the rest of the program does with one request
  is an \<open>exchange\<close>: the time, counted in ticks from the start of the \<open>select\<close>, at which
  the channel operation becomes possible (\<open>None\<close>: never), with the value received, and
  the arm the Go runtime picks when the channel and the timer are ready at the same
  tick (\<open>True\<close>: the channel).
\<close>

record exchange =
  accepted :: "(nat \<times> unit) option"
  accepted_first :: bool
  replied :: "(nat \<times> Packet) option"
  replied_first :: bool

text \<open>
  A \<open>PLM\<close> as its callers see it, over the state \<open>'s\<close> of everything behind its channels
  (Dispatcher, Frame Reader and modem): the configured timeout; what happens to a
  request offered on \<open>txPktCh\<close>; \<open>Subscribe\<close> and \<open>Unsubscribe\<close> (called by the link
  database, declared outside the given sources, hence parameters); and the \<open>select\<close> of
  \<open>Links\<close> on the subscription channel \<open>rrCh\<close> against \<open>time.After(insteon.Timeout)\<close>, whose
  result is the packet received, or \<open>None\<close> when the timer fires.
\<close>

record 's PLM =
  timeout :: nat
  txPktCh :: "Packet \<Rightarrow> 's \<Rightarrow> exchange \<times> 's"
  Subscribe :: "'s \<Rightarrow> 's"
  Unsubscribe :: "'s \<Rightarrow> 's"
  rrCh :: "'s \<Rightarrow> Packet option \<times> 's"

text \<open>
  A \<open>select\<close> between a channel operation and \<open>time.After(d)\<close>: the channel arm runs
  when the operation is possible before the timer fires, the timer arm when it is not;
  at the same tick the runtime chooses.
\<close>

definition select_timeout :: "nat \<Rightarrow> (nat \<times> 'a) option \<Rightarrow> bool \<Rightarrow> 'a option" where
  "select_timeout d ch first =
     (case ch of
        None \<Rightarrow> None
      | Some (t, x) \<Rightarrow> if t < d \<or> (t = d \<and> first) then Some x else None)"

text \<open>
  \<open>PLM.Send\<close>. The named results \<open>ack\<close> and \<open>err\<close> start as nil; each arm sets one of
  them. Trace and debug output is left out.
\<close>

definition Send :: "'s PLM \<Rightarrow> Packet \<Rightarrow> 's \<Rightarrow> (Packet option \<times> error option) \<times> 's" where
  "Send plm packet s =
     (case txPktCh plm packet s of (ex, s') \<Rightarrow>
        (case select_timeout (timeout plm) (accepted ex) (accepted_first ex) of
           Some u \<Rightarrow>
             (case select_timeout (timeout plm) (replied ex) (replied_first ex) of
                Some ack \<Rightarrow> ((Some ack, None), s')
              | None \<Rightarrow> ((None, Some ErrAckTimeout), s'))
         | None \<Rightarrow> ((None, Some ErrWriteTimeout), s')))"

text \<open>
  Modelled from the spec: the \<open>Command\<close> constants are declared outside the given
  sources. The spec names the device-message command 0x62; the other values are those
  of the modem's serial command set. The development uses only that they differ from
  one another.
\<close>

definition CmdGetInfo :: byte where "CmdGetInfo = 0x60"
definition CmdSendInsteonMsg :: byte where "CmdSendInsteonMsg = 0x62"
definition CmdGetFirstAllLink :: byte where "CmdGetFirstAllLink = 0x69"
definition CmdGetNextAllLink :: byte where "CmdGetNextAllLink = 0x6A"
definition CmdManageAllLinkRecord :: byte where "CmdManageAllLinkRecord = 0x6F"

text \<open>
  \<open>PLM.Info\<close>: \<open>ack.Payload\<close> dereferences \<open>ack\<close>, and the type assertion
  \<open>.(*IMInfo)\<close> panics on any other payload.
\<close>

definition Info :: "'s PLM \<Rightarrow> 's \<Rightarrow> (fault + (IMInfo \<times> error option)) \<times> 's" where
  "Info plm s =
     (case Send plm (Packet0\<lparr>retryCount := 3, Command := CmdGetInfo\<rparr>) s of
        ((ack, err), s') \<Rightarrow>
          (case ack of
             None \<Rightarrow> (Inl NilPointerDereference, s')
           | Some a \<Rightarrow>
               (case Payload a of
                  IMInfoPayload info \<Rightarrow> (Inr (info, err), s')
                | _ \<Rightarrow> (Inl InterfaceConversion, s'))))"

section \<open>The link database protocol\<close>

text \<open>
  The \<open>recordRequestCommand\<close> constants and \<open>manageRecordRequest\<close> with its \<open>MarshalBinary\<close>.
\<close>

definition LinkCmdFindFirst :: byte where "LinkCmdFindFirst = 0x00"
definition LinkCmdFindNext :: byte where "LinkCmdFindNext = 0x01"
definition LinkCmdModFirst :: byte where "LinkCmdModFirst = 0x20"
definition LinkCmdModFirstCtrl :: byte where "LinkCmdModFirstCtrl = 0x40"
definition LinkCmdModFirstResp :: byte where "LinkCmdModFirstResp = 0x41"
definition LinkCmdDeleteFirst :: byte where "LinkCmdDeleteFirst = 0x80"

record manageRecordRequest =
  command :: byte
  link :: LinkRecord

definition manageRecordRequest_MarshalBinary ::
  "manageRecordRequest \<Rightarrow> byte list \<times> error option" where
  "manageRecordRequest_MarshalBinary mrr =
     (case LinkRecord_MarshalBinary (link mrr) of (buf, err) \<Rightarrow> (command mrr # buf, err))"

text \<open>
  A function of the link database either does not return (\<open>None\<close>: the \<open>for\<close> loop of
  \<open>Links\<close> has no bound of its own), panics, or returns its result; in each case it
  leaves a state behind.
\<close>

type_synonym ('a, 's) run = "((fault + 'a) \<times> 's) option"

text \<open>
  The \<open>for\<close>/\<open>select\<close> loop of \<open>Links\<close>. Inside \<open>case packet := <-rrCh\<close> the statement
  \<open>err := link.UnmarshalBinary(...)\<close> declares a new \<open>err\<close>, and the later
  \<open>resp, err = db.plm.Send(...)\<close> assigns to that one: the \<open>err\<close> that \<open>Links\<close> returns is
  set by the timer arm only. \<open>resp.NAK() || err != nil\<close> evaluates \<open>resp.NAK()\<close> first.
\<close>

partial_function (option) Links_loop ::
  "'s PLM \<Rightarrow> LinkRecord list \<Rightarrow> 's \<Rightarrow> (LinkRecord list \<times> error option, 's) run" where
  "Links_loop plm links s =
     (case rrCh plm s of
        (None, s1) \<Rightarrow> Some (Inr (links, Some ErrReadTimeout), s1)
      | (Some packet, s1) \<Rightarrow>
          (case LinkRecord_UnmarshalBinary (payload packet) of
             Inl e \<Rightarrow> Some (Inr (links, None), s1)
           | Inr l \<Rightarrow>
               (case Send plm (Packet0\<lparr>Command := CmdGetNextAllLink\<rparr>) s1 of
                  ((resp, err), s2) \<Rightarrow>
                    (case NAK resp of
                       Inl f \<Rightarrow> Some (Inl f, s2)
                     | Inr nak \<Rightarrow>
                         if nak \<or> err \<noteq> None then Some (Inr (links @ [l], None), s2)
                         else Links_loop plm (links @ [l]) s2))))"

declare Links_loop.simps [code]

text \<open>
  \<open>Links\<close>: \<open>resp.NAK()\<close> is evaluated before \<open>err\<close> is looked at; the deferred
  \<open>Unsubscribe\<close> runs on every way out.
\<close>

definition Links :: "'s PLM \<Rightarrow> 's \<Rightarrow> (LinkRecord list \<times> error option, 's) run" where
  "Links plm s =
     (case Send plm (Packet0\<lparr>Command := CmdGetFirstAllLink\<rparr>) (Subscribe plm s) of
        ((resp, err), s1) \<Rightarrow>
          (case NAK resp of
             Inl f \<Rightarrow> Some (Inl f, Unsubscribe plm s1)
           | Inr nak \<Rightarrow>
               if nak then Some (Inr ([], None), Unsubscribe plm s1)
               else if err = None then
                 (case Links_loop plm [] s1 of
                    None \<Rightarrow> None
                  | Some (r, s2) \<Rightarrow> Some (r, Unsubscribe plm s2))
               else Some (Inr ([], err), Unsubscribe plm s1)))"

text \<open>
  \<open>AddLink\<close>: the sub-command follows the record's own direction flag; \<open>resp.NAK()\<close> is
  called whatever \<open>Send\<close> returned, and a nak becomes the error "Failed to add link
  back to ALDB".
\<close>

definition AddLink :: "'s PLM \<Rightarrow> LinkRecord \<Rightarrow> 's \<Rightarrow> (fault + error option) \<times> 's" where
  "AddLink plm newLink s =
     (let cmd = (if Controller (Flags newLink) then LinkCmdModFirstCtrl else LinkCmdModFirstResp);
          rr = \<lparr>command = cmd, link = newLink\<rparr>
      in case manageRecordRequest_MarshalBinary rr of (buf, _) \<Rightarrow>
        (case Send plm (Packet0\<lparr>Command := CmdManageAllLinkRecord, payload := buf\<rparr>) s of
           ((resp, err), s1) \<Rightarrow>
             (case NAK resp of
                Inl f \<Rightarrow> (Inl f, s1)
              | Inr nak \<Rightarrow> (Inr (if nak then Some ErrAddLink else err), s1))))"

text \<open>
  \<open>RemoveLinks\<close>, in the order of the source: the loop over the stored links that counts
  the matches on group and address and collects those not content-equal to the target;
  the loop of delete requests, which \<open>break\<close> leaves on the first error; the loop over
  the targets, where a failed re-read breaks the loop and \<open>err\<close> is assigned anew by
  every re-read; and the restore loop, run when \<open>err\<close> is nil, whose \<open>AddLink\<close> results
  are not used. \<open>RemoveLinks_from\<close> is the function from a given state of its loop
  variables, \<open>RemoveLinks\<close> the function from their initial values. The targets are
  non-nil pointers.
\<close>

fun count_matches ::
  "LinkRecord \<Rightarrow> LinkRecord list \<Rightarrow> nat \<times> LinkRecord list \<Rightarrow> nat \<times> LinkRecord list" where
  "count_matches oldLink [] (numDelete, deletedLinks) = (numDelete, deletedLinks)"
| "count_matches oldLink (l # links) (numDelete, deletedLinks) =
     (if Group l = Group oldLink \<and> Address l = Address oldLink then
        count_matches oldLink links
          (numDelete + 1, if \<not> Equal oldLink l then deletedLinks @ [l] else deletedLinks)
      else count_matches oldLink links (numDelete, deletedLinks))"

fun delete_loop :: "'s PLM \<Rightarrow> LinkRecord \<Rightarrow> nat \<Rightarrow> 's \<Rightarrow> error option \<times> 's" where
  "delete_loop plm oldLink 0 s = (None, s)"
| "delete_loop plm oldLink (Suc n) s =
     (case manageRecordRequest_MarshalBinary \<lparr>command = LinkCmdDeleteFirst, link = oldLink\<rparr> of
        (buf, _) \<Rightarrow>
          (case Send plm (Packet0\<lparr>Command := CmdManageAllLinkRecord, payload := buf\<rparr>) s of
             ((_, err), s1) \<Rightarrow> if err \<noteq> None then (err, s1) else delete_loop plm oldLink n s1))"

fun RemoveLinks_loop ::
  "'s PLM \<Rightarrow> LinkRecord list \<Rightarrow> error option \<Rightarrow> LinkRecord list \<Rightarrow> 's \<Rightarrow>
   (LinkRecord list \<times> error option, 's) run" where
  "RemoveLinks_loop plm [] err deletedLinks s = Some (Inr (deletedLinks, err), s)"
| "RemoveLinks_loop plm (oldLink # rest) err deletedLinks s =
     (case Links plm s of
        None \<Rightarrow> None
      | Some (Inl f, s1) \<Rightarrow> Some (Inl f, s1)
      | Some (Inr (links, err1), s1) \<Rightarrow>
          if err1 = None then
            (case count_matches oldLink links (0, deletedLinks) of
               (numDelete, deletedLinks1) \<Rightarrow>
                 (case delete_loop plm oldLink numDelete s1 of
                    (err2, s2) \<Rightarrow> RemoveLinks_loop plm rest err2 deletedLinks1 s2))
          else Some (Inr (deletedLinks, err1), s1))"

fun restore :: "'s PLM \<Rightarrow> LinkRecord list \<Rightarrow> 's \<Rightarrow> (fault + unit) \<times> 's" where
  "restore plm [] s = (Inr (), s)"
| "restore plm (l # rest) s =
     (case AddLink plm l s of
        (Inl f, s1) \<Rightarrow> (Inl f, s1)
      | (Inr _, s1) \<Rightarrow> restore plm rest s1)"

definition RemoveLinks_from ::
  "'s PLM \<Rightarrow> LinkRecord list \<Rightarrow> error option \<Rightarrow> LinkRecord list \<Rightarrow> 's \<Rightarrow> (error option, 's) run" where
  "RemoveLinks_from plm oldLinks err0 deleted0 s =
     (case RemoveLinks_loop plm oldLinks err0 deleted0 s of
        None \<Rightarrow> None
      | Some (Inl f, s1) \<Rightarrow> Some (Inl f, s1)
      | Some (Inr (deletedLinks, err), s1) \<Rightarrow>
          if err = None then
            (case restore plm deletedLinks s1 of
               (Inl f, s2) \<Rightarrow> Some (Inl f, s2)
             | (Inr _, s2) \<Rightarrow> Some (Inr err, s2))
          else Some (Inr err, s1))"

definition RemoveLinks :: "'s PLM \<Rightarrow> LinkRecord list \<Rightarrow> 's \<Rightarrow> (error option, 's) run" where
  "RemoveLinks plm oldLinks s = RemoveLinks_from plm oldLinks None [] s"

text \<open>
  The request that \<open>AddLink\<close> hands to \<open>Send\<close> for a record, and the condition that
  every request of the restore loop is acknowledged: the \<open>Send\<close> of each \<open>AddLink\<close>,
  from the state the ones before it left, returns a packet (an ack or a nak) and not
  a timeout.
\<close>

definition AddLink_request :: "LinkRecord \<Rightarrow> Packet" where
  "AddLink_request newLink =
     Packet0\<lparr>Command := CmdManageAllLinkRecord,
       payload := fst (manageRecordRequest_MarshalBinary
         \<lparr>command = (if Controller (Flags newLink) then LinkCmdModFirstCtrl else LinkCmdModFirstResp),
          link = newLink\<rparr>)\<rparr>"

fun restore_acked :: "'s PLM \<Rightarrow> LinkRecord list \<Rightarrow> 's \<Rightarrow> bool" where
  "restore_acked plm [] s = True"
| "restore_acked plm (l # rest) s =
     (case Send plm (AddLink_request l) s of
        ((resp, err), s1) \<Rightarrow> resp \<noteq> None \<and> restore_acked plm rest s1)"

text \<open>
  \<open>Cleanup\<close>: for every index \<open>i\<close>, every later link content-equal to \<open>links[i]\<close> is
  appended to \<open>removeable\<close>.
\<close>

fun duplicates :: "LinkRecord list \<Rightarrow> LinkRecord list" where
  "duplicates [] = []"
| "duplicates (l1 # rest) = filter (\<lambda>l2. Equal l1 l2) rest @ duplicates rest"

definition Cleanup :: "'s PLM \<Rightarrow> 's \<Rightarrow> (error option, 's) run" where
  "Cleanup plm s =
     (case Links plm s of
        None \<Rightarrow> None
      | Some (Inl f, s1) \<Rightarrow> Some (Inl f, s1)
      | Some (Inr (links, err), s1) \<Rightarrow>
          if err = None then RemoveLinks plm (duplicates links) s1
          else Some (Inr err, s1))"


section \<open>Environments of the link database protocol\<close>

text \<open>
  The packets handed to \<open>Send\<close> can be recorded, as \<open>tracePkt("PLM Send", packet)\<close> does:
  \<open>logged plm\<close> behaves as \<open>plm\<close> and appends every request to a list. An add request is
  a manage-record request whose sub-command is one of the two "modify first" commands
  that \<open>AddLink\<close> sends.
\<close>

definition is_add_request :: "Packet \<Rightarrow> bool" where
  "is_add_request p =
     (Command p = CmdManageAllLinkRecord \<and>
      (case payload p of
         [] \<Rightarrow> False
       | c # buf \<Rightarrow> c = LinkCmdModFirstCtrl \<or> c = LinkCmdModFirstResp))"

definition logged :: "'s PLM \<Rightarrow> ('s \<times> Packet list) PLM" where
  "logged plm =
     \<lparr>timeout = timeout plm,
      txPktCh = (\<lambda>p (s, tr). case txPktCh plm p s of (ex, s') \<Rightarrow> (ex, (s', tr @ [p]))),
      Subscribe = (\<lambda>(s, tr). (Subscribe plm s, tr)),
      Unsubscribe = (\<lambda>(s, tr). (Unsubscribe plm s, tr)),
      rrCh = (\<lambda>(s, tr). case rrCh plm s of (r, s') \<Rightarrow> (r, (s', tr)))\<rparr>"

text \<open>
  Three exchanges: taken and answered at once; taken and never answered; never taken.
\<close>

definition at_once :: "Packet \<Rightarrow> exchange" where
  "at_once p = \<lparr>accepted = Some (0, ()), accepted_first = True,
                replied = Some (0, p), replied_first = True\<rparr>"

definition unanswered :: exchange where
  "unanswered = \<lparr>accepted = Some (0, ()), accepted_first = True,
                 replied = None, replied_first = False\<rparr>"

definition refused :: exchange where
  "refused = \<lparr>accepted = None, accepted_first = False, replied = None, replied_first = False\<rparr>"

text \<open>
  A scripted \<open>PLM\<close>: the outcome of each \<open>Send\<close> and of each wait on \<open>rrCh\<close> is read from
  a list, and the requests are recorded.
\<close>

record script =
  replies :: "exchange list"
  records :: "Packet option list"
  sent :: "Packet list"

definition Scripted :: "nat \<Rightarrow> script PLM" where
  "Scripted d =
     \<lparr>timeout = d,
      txPktCh = (\<lambda>p s. case replies s of
                          [] \<Rightarrow> (refused, s\<lparr>sent := sent s @ [p]\<rparr>)
                        | ex # rest \<Rightarrow> (ex, s\<lparr>replies := rest, sent := sent s @ [p]\<rparr>)),
      Subscribe = (\<lambda>s. s),
      Unsubscribe = (\<lambda>s. s),
      rrCh = (\<lambda>s. case records s of
                      [] \<Rightarrow> (None, s)
                    | r # rest \<Rightarrow> (r, s\<lparr>records := rest\<rparr>))\<rparr>"

text \<open>
  Modelled from the spec: the modem is hardware outside the repository. It holds the
  link table and answers every request at once. "Get first" and "get next" page
  through the table: a nak when there is no (further) record, else an ack followed by
  a record response (command 0x57) on the subscription channel. The "underlying device
  protocol ... deletes by group+address, not full content", and it deletes "the first
  matching record"; a "modify first" request rewrites the first record of its
  direction, group and address, or adds the record. Replies echo the request with the
  status byte 0x06 (ack) or 0x15 (nak).
\<close>

record modem =
  table :: "LinkRecord list"
  cursor :: nat
  responses :: "Packet list"

definition ack_reply :: "Packet \<Rightarrow> exchange" where
  "ack_reply p = at_once (p\<lparr>Ack := 0x06\<rparr>)"

definition nak_reply :: "Packet \<Rightarrow> exchange" where
  "nak_reply p = at_once (p\<lparr>Ack := 0x15\<rparr>)"

definition record_response :: "LinkRecord \<Rightarrow> Packet" where
  "record_response l = Packet0\<lparr>Command := 0x57, payload := fst (LinkRecord_MarshalBinary l)\<rparr>"

fun delete_first :: "LinkRecord \<Rightarrow> LinkRecord list \<Rightarrow> LinkRecord list option" where
  "delete_first k [] = None"
| "delete_first k (l # ls) =
     (if Group l = Group k \<and> Address l = Address k then Some ls
      else map_option ((#) l) (delete_first k ls))"

fun modify_first :: "bool \<Rightarrow> LinkRecord \<Rightarrow> LinkRecord list \<Rightarrow> LinkRecord list" where
  "modify_first c k [] = [k]"
| "modify_first c k (l # ls) =
     (if Controller (Flags l) = c \<and> Group l = Group k \<and> Address l = Address k then k # ls
      else l # modify_first c k ls)"

definition modem_request :: "Packet \<Rightarrow> modem \<Rightarrow> exchange \<times> modem" where
  "modem_request p m =
     (if Command p = CmdGetFirstAllLink then
        (case table m of
           [] \<Rightarrow> (nak_reply p, m)
         | l # ls \<Rightarrow> (ack_reply p, m\<lparr>cursor := 1, responses := responses m @ [record_response l]\<rparr>))
      else if Command p = CmdGetNextAllLink then
        (if cursor m < length (table m) then
           (ack_reply p, m\<lparr>cursor := cursor m + 1,
                      responses := responses m @ [record_response (table m ! cursor m)]\<rparr>)
         else (nak_reply p, m))
      else if Command p = CmdManageAllLinkRecord then
        (case payload p of
           [] \<Rightarrow> (nak_reply p, m)
         | c # buf \<Rightarrow>
             (case LinkRecord_UnmarshalBinary buf of
                Inl e \<Rightarrow> (nak_reply p, m)
              | Inr k \<Rightarrow>
                  if c = LinkCmdDeleteFirst then
                    (case delete_first k (table m) of
                       None \<Rightarrow> (nak_reply p, m)
                     | Some t \<Rightarrow> (ack_reply p, m\<lparr>table := t\<rparr>))
                  else if c = LinkCmdModFirstCtrl then
                    (ack_reply p, m\<lparr>table := modify_first True k (table m)\<rparr>)
                  else if c = LinkCmdModFirstResp then
                    (ack_reply p, m\<lparr>table := modify_first False k (table m)\<rparr>)
                  else (nak_reply p, m)))
      else (nak_reply p, m))"

definition Modem :: "nat \<Rightarrow> modem PLM" where
  "Modem d =
     \<lparr>timeout = d,
      txPktCh = modem_request,
      Subscribe = (\<lambda>m. m),
      Unsubscribe = (\<lambda>m. m),
      rrCh = (\<lambda>m. case responses m of
                      [] \<Rightarrow> (None, m)
                    | r # rest \<Rightarrow> (Some r, m\<lparr>responses := rest\<rparr>))\<rparr>"

text \<open>What a delete-first request leaves of the table.\<close>

definition drop_match :: "LinkRecord \<Rightarrow> LinkRecord list \<Rightarrow> LinkRecord list" where
  "drop_match k t = (case delete_first k t of None \<Rightarrow> t | Some t' \<Rightarrow> t')"

section \<open>Example data\<close>

text \<open>
  Five link records. \<open>ex_A\<close> and \<open>ex_A'\<close> are content-equal and differ in a flag bit
  that is not the direction; \<open>ex_A2\<close> shares group and address with them and has other
  data; \<open>ex_B\<close> and \<open>ex_C\<close> differ from all of them in group or address.
\<close>

definition ex_A :: LinkRecord where
  "ex_A = \<lparr>Flags = 0xE2, Group = 1, Address = (0x11, 0x22, 0x33), Data = (1, 2, 3)\<rparr>"

definition ex_A' :: LinkRecord where
  "ex_A' = \<lparr>Flags = 0xC2, Group = 1, Address = (0x11, 0x22, 0x33), Data = (1, 2, 3)\<rparr>"

definition ex_A2 :: LinkRecord where
  "ex_A2 = \<lparr>Flags = 0xE2, Group = 1, Address = (0x11, 0x22, 0x33), Data = (9, 9, 9)\<rparr>"

definition ex_B :: LinkRecord where
  "ex_B = \<lparr>Flags = 0xA2, Group = 2, Address = (0x11, 0x22, 0x33), Data = (1, 2, 3)\<rparr>"

definition ex_C :: LinkRecord where
  "ex_C = \<lparr>Flags = 0xA2, Group = 1, Address = (0x44, 0x55, 0x66), Data = (0, 0, 0)\<rparr>"

text \<open>Replies of a scripted modem: an ack and a nak.\<close>

definition acked :: exchange where
  "acked = at_once (Packet0\<lparr>Ack := 0x06\<rparr>)"

definition naked :: exchange where
  "naked = at_once (Packet0\<lparr>Ack := 0x15\<rparr>)"

section \<open>The Dispatcher: one iteration of PLM.readWriteLoop\<close>

text \<open>
  A Go channel as the Dispatcher sees it: the queued values, the capacity, the number
  of goroutines blocked receiving from it, the values handed to such receivers, and
  whether it is closed. A send can proceed when a receiver waits or the queue has
  room. Channels live in a store (\<open>chans\<close>), since the caller of \<open>Send\<close> and the
  Dispatcher share \<open>ackCh\<close>; a nil channel is \<open>None\<close>.
\<close>

record chan =
  queue :: "Packet list"
  cap :: nat
  receivers :: nat
  handed :: "Packet list"
  closed :: bool

definition chan_send :: "chan \<Rightarrow> Packet \<Rightarrow> chan option" where
  "chan_send c p =
     (if 0 < receivers c then Some (c\<lparr>receivers := receivers c - 1, handed := handed c @ [p]\<rparr>)
      else if length (queue c) < cap c then Some (c\<lparr>queue := queue c @ [p]\<rparr>)
      else None)"

text \<open>
  Log output (\<open>insteon.Log\<close>), by level, with the format string of the call.
\<close>

datatype log_line = Tracef string | Debugf string | Infof string

record txPacketInfo =
  packet :: Packet
  ackCh :: "nat option"

record connectionInfo =
  address :: bytes3
  ch :: "nat option"

datatype event =
    TxPkt txPacketInfo
  | RxPkt Packet
  | Connection connectionInfo

record dispatcher =
  connections :: "bytes3 \<rightharpoonup> nat option"
  ackChannels :: "byte \<rightharpoonup> nat option"
  chans :: "nat \<rightharpoonup> chan"
  plmCh :: chan
  out :: "byte list"
  log :: "log_line list"

text \<open>
  One iteration of \<open>readWriteLoop\<close> on the event its outer \<open>select\<close> received. It ends
  with the next state, blocks for ever (a send without \<open>default\<close> that cannot proceed),
  or panics. \<open>Packet.MarshalBinary\<close> is declared outside the given sources and is a
  parameter; a write to the port \<open>plm.out\<close> appends the bytes and does not fail.
\<close>

datatype 'a step = Next 'a | Blocked | Panic fault

definition Logf :: "log_line \<Rightarrow> dispatcher \<Rightarrow> dispatcher" where
  "Logf l st = st\<lparr>log := log st @ [l]\<rparr>"

definition writePacket ::
  "(Packet \<Rightarrow> byte list \<times> error option) \<Rightarrow> Packet \<Rightarrow> dispatcher \<Rightarrow> error option \<times> dispatcher" where
  "writePacket MarshalBinary p st =
     (case MarshalBinary p of (bs, err) \<Rightarrow>
        (let st1 = Logf (Tracef ''TX BUFFER'') st in
         if err = None then (None, st1\<lparr>out := out st1 @ bs\<rparr>) else (err, st1)))"

definition readWriteLoop_step ::
  "(Packet \<Rightarrow> byte list \<times> error option) \<Rightarrow> event \<Rightarrow> dispatcher \<Rightarrow> dispatcher step" where
  "readWriteLoop_step MarshalBinary ev st0 =
     (let st = Logf (Debugf ''readWriteLoop wait...'') st0 in
      case ev of
        TxPkt send \<Rightarrow>
          (case writePacket MarshalBinary (packet send)
                  (st\<lparr>ackChannels := (ackChannels st)(Command (packet send) \<mapsto> ackCh send)\<rparr>) of
             (err, st1) \<Rightarrow> Next (if err = None then Logf (Tracef ''TX'') st1 else st1))
      | RxPkt pkt \<Rightarrow>
          if Command pkt = 0x50 \<or> Command pkt = 0x51 then
            (case Payload pkt of
               MessagePayload msg \<Rightarrow>
                 (let st1 = Logf (Debugf ''Received INSTEON Message %v'') st in
                  case connections st1 (Src msg) of
                    Some conn \<Rightarrow>
                      (let st2 = Logf (Debugf ''Dispatching message to device connection'') st1 in
                       case conn of
                         None \<Rightarrow> Blocked
                       | Some i \<Rightarrow>
                           (case chans st2 i of
                              None \<Rightarrow> Blocked
                            | Some c \<Rightarrow>
                                if closed c then Panic SendOnClosedChannel
                                else
                                  (case chan_send c pkt of
                                     None \<Rightarrow> Blocked
                                   | Some c' \<Rightarrow> Next (st2\<lparr>chans := (chans st2)(i \<mapsto> c')\<rparr>))))
                  | None \<Rightarrow> Next st1)
             | _ \<Rightarrow> Panic InterfaceConversion)
          else if 0x52 \<le> Command pkt \<and> Command pkt \<le> 0x58 then
            (if closed (plmCh st) then Panic SendOnClosedChannel
             else
               (case chan_send (plmCh st) pkt of
                  Some c' \<Rightarrow> Next (st\<lparr>plmCh := c'\<rparr>)
                | None \<Rightarrow>
                    Next (Logf (Infof ''Received modem response, but no one was listening for it'') st)))
          else
            (case ackChannels st (Command pkt) of
               Some a \<Rightarrow>
                 (case a of
                    None \<Rightarrow> Next st
                  | Some i \<Rightarrow>
                      (case chans st i of
                         None \<Rightarrow> Next st
                       | Some c \<Rightarrow>
                           if closed c then Panic SendOnClosedChannel
                           else
                             (case chan_send c pkt of
                                Some c' \<Rightarrow>
                                  Next (st\<lparr>chans := (chans st)(i \<mapsto> c'\<lparr>closed := True\<rparr>),
                                           ackChannels := (ackChannels st)(Command pkt \<mapsto> None)\<rparr>)
                              | None \<Rightarrow> Next st)))
             | None \<Rightarrow> Next st)
      | Connection info \<Rightarrow>
          Next (st\<lparr>connections := (connections st)(address info \<mapsto> ch info)\<rparr>))"

section \<open>Properties of frame decoding\<close>

lemma ReadAtLeast_enough:
  "m \<le> length inp \<Longrightarrow>
   ReadAtLeast inp (replicate m 0) m = ((take m inp, None), drop m inp)"
  by (simp add: ReadAtLeast_def Let_def min_def)

lemma take_7_14: "take 21 rest = take 7 rest @ take 14 (drop 7 rest)"
  using take_add [of 7 14 rest] by simp

text \<open>
  Claim C6. When the second byte of the stream (the command byte) is not a key of the
  command length table, decoding fails with a framing error, and the decoder has
  consumed no more than the two header bytes: both of them when the first byte is the
  start-of-frame marker 0x02, only the first one otherwise (the decoder has already
  failed on the bad start byte).
\<close>

theorem readPacket_unknown_command:
  assumes "commandLens b1 = None"
  shows "readPacket commandLens IsExtended UnmarshalBinary (b0 # b1 # rest) =
           (if b0 = 0x02 then (Inr (None, Some (ErrUnknownCommand b1)), rest)
            else (Inr (None, Some (ErrExpectedStart b0)), b1 # rest))
         \<and> (\<exists>e k. fst (readPacket commandLens IsExtended UnmarshalBinary (b0 # b1 # rest))
                     = Inr (None, Some e)
                 \<and> framing_error e \<and> k \<le> 2
                 \<and> snd (readPacket commandLens IsExtended UnmarshalBinary (b0 # b1 # rest))
                     = drop k (b0 # b1 # rest))"
proof -
  have run: "readPacket commandLens IsExtended UnmarshalBinary (b0 # b1 # rest) =
           (if b0 = 0x02 then (Inr (None, Some (ErrUnknownCommand b1)), rest)
            else (Inr (None, Some (ErrExpectedStart b0)), b1 # rest))"
    using assms by (simp add: readPacket_def ReadByte_def)
  show ?thesis
  proof (cases "b0 = 0x02")
    case True
    have "drop 2 (b0 # b1 # rest) = rest" by simp
    with run True show ?thesis
      by (intro conjI exI [of _ "ErrUnknownCommand b1"] exI [of _ 2]) simp_all
  next
    case False
    have "drop 1 (b0 # b1 # rest) = b1 # rest" by simp
    with run False show ?thesis
      by (intro conjI exI [of _ "ErrExpectedStart b0"] exI [of _ 1]) simp_all
  qed
qed

theorem readPacket_unknown_command_witness:
  "readPacket [0x60 \<mapsto> 7, 0x62 \<mapsto> 7] (\<lambda>f. f AND 0x10 \<noteq> 0)
     (\<lambda>bs. (Packet0\<lparr>Command := bs ! 1, payload := drop 2 bs\<rparr>, None))
     [0x02, 0x7F, 0x02, 0x60] = (Inr (None, Some (ErrUnknownCommand 0x7F)), [0x02, 0x60])"
  using readPacket_unknown_command [of "[0x60 \<mapsto> 7, 0x62 \<mapsto> 7]" "0x7F" "\<lambda>f. f AND 0x10 \<noteq> 0"
    "\<lambda>bs. (Packet0\<lparr>Command := bs ! 1, payload := drop 2 bs\<rparr>, None)" "0x02" "[0x02, 0x60]"]
  by simp

text \<open>
  Claim C7. For a frame that starts with 0x02 and a command \<open>b\<close> of the table with fixed
  length \<open>n\<close>, on a stream that holds the whole frame, the decoder consumes
  \<open>2 + n + 14\<close> bytes exactly when \<open>b\<close> is 0x62 and the flags byte at offset 5 of
  the frame is extended, and \<open>2 + n\<close> bytes in every other case; the bytes consumed are
  the ones handed to \<open>UnmarshalBinary\<close>. The source addresses the flags byte and the
  extension by the fixed offsets 5 and 9, that is, for a fixed length of 7 for command
  0x62: the table, a parameter here, is taken to say so.
\<close>

theorem readPacket_extended:
  assumes "commandLens b = Some n" and "b = 0x62 \<longrightarrow> n = 7"
      and "inp = 0x02 # b # rest"
      and "k = 2 + n + (if b = 0x62 \<and> IsExtended (inp ! 5) then 14 else 0)"
      and "k \<le> length inp"
    shows "readPacket commandLens IsExtended UnmarshalBinary inp =
           (case UnmarshalBinary (take k inp) of
              (pkt, err) \<Rightarrow> (Inr (Some pkt, err), drop k inp))"
proof (cases "b = 0x62")
  case False
  with assms show ?thesis
    by (simp add: readPacket_def ReadByte_def ReadAtLeast_enough)
next
  case True
  with assms have n: "n = 7" by simp
  show ?thesis
  proof (cases "IsExtended (inp ! 5)")
    case False
    with assms True n show ?thesis
      by (simp add: readPacket_def ReadByte_def ReadAtLeast_enough)
  next
    case ext: True
    with assms True n have len: "21 \<le> length rest" by simp
    have r: "ReadAtLeast (drop 7 rest) (replicate 14 0) 14 =
             ((take 14 (drop 7 rest), None), drop 14 (drop 7 rest))"
      using len by (intro ReadAtLeast_enough) simp
    show ?thesis using assms True n ext len
      by (simp add: readPacket_def ReadByte_def ReadAtLeast_enough r take_7_14)
  qed
qed

theorem readPacket_extended_witness:
  "readPacket [0x60 \<mapsto> 7, 0x62 \<mapsto> 7] (\<lambda>f. f AND 0x10 \<noteq> 0)
     (\<lambda>bs. (Packet0\<lparr>Command := bs ! 1, payload := drop 2 bs\<rparr>, None))
     [0x02, 0x62, 1, 2, 3, 0x1F, 0x2E, 0, 0x06, 1, 2, 3, 4, 5, 6, 7, 8, 9, 10, 11, 12, 13, 14, 0x02]
   = (Inr (Some (Packet0\<lparr>Command := 0x62,
                  payload := [1, 2, 3, 0x1F, 0x2E, 0, 0x06, 1, 2, 3, 4, 5, 6, 7, 8, 9, 10, 11, 12, 13, 14]\<rparr>),
           None), [0x02])
   \<and> readPacket [0x60 \<mapsto> 7, 0x62 \<mapsto> 7] (\<lambda>f. f AND 0x10 \<noteq> 0)
     (\<lambda>bs. (Packet0\<lparr>Command := bs ! 1, payload := drop 2 bs\<rparr>, None))
     [0x02, 0x62, 1, 2, 3, 0x0F, 0x11, 0xFF, 0x06, 0x02, 0x60]
   = (Inr (Some (Packet0\<lparr>Command := 0x62, payload := [1, 2, 3, 0x0F, 0x11, 0xFF, 0x06]\<rparr>), None),
      [0x02, 0x60])"
  using readPacket_extended [of "[0x60 \<mapsto> 7, 0x62 \<mapsto> 7]" "0x62" 7
    "[0x02, 0x62, 1, 2, 3, 0x1F, 0x2E, 0, 0x06, 1, 2, 3, 4, 5, 6, 7, 8, 9, 10, 11, 12, 13, 14, 0x02]"
    "[1, 2, 3, 0x1F, 0x2E, 0, 0x06, 1, 2, 3, 4, 5, 6, 7, 8, 9, 10, 11, 12, 13, 14, 0x02]"
    23 "\<lambda>f. f AND 0x10 \<noteq> 0"
    "\<lambda>bs. (Packet0\<lparr>Command := bs ! 1, payload := drop 2 bs\<rparr>, None)"]
    readPacket_extended [of "[0x60 \<mapsto> 7, 0x62 \<mapsto> 7]" "0x62" 7
    "[0x02, 0x62, 1, 2, 3, 0x0F, 0x11, 0xFF, 0x06, 0x02, 0x60]"
    "[1, 2, 3, 0x0F, 0x11, 0xFF, 0x06, 0x02, 0x60]"
    9 "\<lambda>f. f AND 0x10 \<noteq> 0"
    "\<lambda>bs. (Packet0\<lparr>Command := bs ! 1, payload := drop 2 bs\<rparr>, None)"]
  by simp

section \<open>Properties of the facade\<close>

text \<open>
  Claim C5. \<open>Send\<close> hands the request to the Dispatcher's queue and waits for the
  reply, each bounded by the same configured timeout. When the queue does not take the
  request within the timeout, \<open>Send\<close> returns no packet and the write-timeout error;
  when it takes it and no reply arrives within the timeout, no packet and the
  ack-timeout error; when a reply arrives in time, that reply and no error.
\<close>

theorem Send_outcomes:
  assumes "txPktCh plm p s = (ex, s')"
  shows "((accepted ex = None \<or> (\<exists>t. accepted ex = Some (t, ()) \<and> timeout plm < t))
            \<longrightarrow> Send plm p s = ((None, Some ErrWriteTimeout), s'))
       \<and> ((\<exists>t. accepted ex = Some (t, ()) \<and> t < timeout plm) \<and>
          (replied ex = None \<or> (\<exists>u r. replied ex = Some (u, r) \<and> timeout plm < u))
            \<longrightarrow> Send plm p s = ((None, Some ErrAckTimeout), s'))
       \<and> ((\<exists>t. accepted ex = Some (t, ()) \<and> t < timeout plm) \<and>
          (\<exists>u. replied ex = Some (u, r) \<and> u < timeout plm)
            \<longrightarrow> Send plm p s = ((Some r, None), s'))"
  using assms by (auto simp: Send_def select_timeout_def)

theorem Send_outcomes_witness:
  "Send (Scripted 5) Packet0
     \<lparr>replies = [\<lparr>accepted = Some (7, ()), accepted_first = True,
                  replied = Some (1, Packet0\<lparr>Ack := 0x06\<rparr>), replied_first = True\<rparr>],
      records = [], sent = []\<rparr>
     = ((None, Some ErrWriteTimeout), \<lparr>replies = [], records = [], sent = [Packet0]\<rparr>)
   \<and> Send (Scripted 5) Packet0
     \<lparr>replies = [\<lparr>accepted = Some (2, ()), accepted_first = True,
                  replied = Some (9, Packet0\<lparr>Ack := 0x06\<rparr>), replied_first = True\<rparr>],
      records = [], sent = []\<rparr>
     = ((None, Some ErrAckTimeout), \<lparr>replies = [], records = [], sent = [Packet0]\<rparr>)
   \<and> Send (Scripted 5) Packet0
     \<lparr>replies = [\<lparr>accepted = Some (2, ()), accepted_first = False,
                  replied = Some (3, Packet0\<lparr>Ack := 0x06\<rparr>), replied_first = False\<rparr>],
      records = [], sent = []\<rparr>
     = ((Some (Packet0\<lparr>Ack := 0x06\<rparr>), None), \<lparr>replies = [], records = [], sent = [Packet0]\<rparr>)"
proof -
  have tx: "txPktCh (Scripted 5) Packet0 \<lparr>replies = [x], records = [], sent = []\<rparr> =
            (x, \<lparr>replies = [], records = [], sent = [Packet0]\<rparr>)" for x
    by (simp add: Scripted_def)
  have to: "timeout (Scripted 5) = 5"
    by (simp add: Scripted_def)
  show ?thesis
    using Send_outcomes [OF tx, of "\<lparr>accepted = Some (7, ()), accepted_first = True,
                  replied = Some (1, Packet0\<lparr>Ack := 0x06\<rparr>), replied_first = True\<rparr>"]
      Send_outcomes [OF tx, of "\<lparr>accepted = Some (2, ()), accepted_first = True,
                  replied = Some (9, Packet0\<lparr>Ack := 0x06\<rparr>), replied_first = True\<rparr>"]
      Send_outcomes [OF tx, of "\<lparr>accepted = Some (2, ()), accepted_first = False,
                  replied = Some (3, Packet0\<lparr>Ack := 0x06\<rparr>), replied_first = False\<rparr>"
        "Packet0\<lparr>Ack := 0x06\<rparr>"]
    by (simp add: to)
qed

text \<open>
  Claim C9. \<open>Info\<close> reads \<open>ack.Payload\<close> whatever \<open>Send\<close> returned: it ends in a
  nil-pointer dereference exactly when \<open>Send\<close> returned a nil acknowledgement (which
  \<open>Send\<close> does together with each of its errors), and when the acknowledgement carries
  modem info, \<open>Info\<close> returns it with the error of \<open>Send\<close>.
\<close>

theorem Info_nil_ack:
  "(fst (Info plm s) = Inl NilPointerDereference \<longleftrightarrow>
      fst (fst (Send plm (Packet0\<lparr>retryCount := 3, Command := CmdGetInfo\<rparr>) s)) = None)
   \<and> (Send plm (Packet0\<lparr>retryCount := 3, Command := CmdGetInfo\<rparr>) s = ((Some a, err), s')
        \<and> Payload a = IMInfoPayload i \<longrightarrow> Info plm s = (Inr (i, err), s'))"
  by (auto simp: Info_def split: prod.splits option.splits Payload_t.splits)

theorem Info_nil_ack_witness:
  "Send (Scripted 5) (Packet0\<lparr>retryCount := 3, Command := CmdGetInfo\<rparr>)
      \<lparr>replies = [unanswered], records = [], sent = []\<rparr>
     = ((None, Some ErrAckTimeout),
        \<lparr>replies = [], records = [], sent = [Packet0\<lparr>retryCount := 3, Command := CmdGetInfo\<rparr>]\<rparr>)
   \<and> fst (Info (Scripted 5) \<lparr>replies = [unanswered], records = [], sent = []\<rparr>)
       = Inl NilPointerDereference
   \<and> Info (Scripted 5)
       \<lparr>replies = [at_once (Packet0\<lparr>Payload := IMInfoPayload (IMInfo [1, 2, 3])\<rparr>)],
        records = [], sent = []\<rparr>
     = (Inr (IMInfo [1, 2, 3], None),
        \<lparr>replies = [], records = [], sent = [Packet0\<lparr>retryCount := 3, Command := CmdGetInfo\<rparr>]\<rparr>)"
proof -
  have 1: "Send (Scripted 5) (Packet0\<lparr>retryCount := 3, Command := CmdGetInfo\<rparr>)
      \<lparr>replies = [unanswered], records = [], sent = []\<rparr>
     = ((None, Some ErrAckTimeout),
        \<lparr>replies = [], records = [], sent = [Packet0\<lparr>retryCount := 3, Command := CmdGetInfo\<rparr>]\<rparr>)"
    by (simp add: Send_def Scripted_def unanswered_def select_timeout_def)
  have 2: "Send (Scripted 5) (Packet0\<lparr>retryCount := 3, Command := CmdGetInfo\<rparr>)
      \<lparr>replies = [at_once (Packet0\<lparr>Payload := IMInfoPayload (IMInfo [1, 2, 3])\<rparr>)], records = [], sent = []\<rparr>
     = ((Some (Packet0\<lparr>Payload := IMInfoPayload (IMInfo [1, 2, 3])\<rparr>), None),
        \<lparr>replies = [], records = [], sent = [Packet0\<lparr>retryCount := 3, Command := CmdGetInfo\<rparr>]\<rparr>)"
    by (simp add: Send_def Scripted_def at_once_def select_timeout_def)
  show ?thesis
    using Info_nil_ack [of "Scripted 5" "\<lparr>replies = [unanswered], records = [], sent = []\<rparr>"]
      Info_nil_ack [of "Scripted 5"
        "\<lparr>replies = [at_once (Packet0\<lparr>Payload := IMInfoPayload (IMInfo [1, 2, 3])\<rparr>)],
          records = [], sent = []\<rparr>"
        "Packet0\<lparr>Payload := IMInfoPayload (IMInfo [1, 2, 3])\<rparr>" None
        "\<lparr>replies = [], records = [], sent = [Packet0\<lparr>retryCount := 3, Command := CmdGetInfo\<rparr>]\<rparr>"
        "IMInfo [1, 2, 3]"]
    by (simp add: 1 2)
qed

section \<open>Properties of the link database protocol\<close>

lemma NAK_Some: "NAK (Some p) = Inr (Ack p = 0x15)"
  by (simp add: NAK_def)

lemma unmarshal_marshal:
  "LinkRecord_UnmarshalBinary (fst (LinkRecord_MarshalBinary l)) = Inr l"
  by (cases l) (simp add: LinkRecord_MarshalBinary_def split: prod.split)

lemma mrr_marshal:
  "manageRecordRequest_MarshalBinary \<lparr>command = c, link = l\<rparr> =
     (c # fst (LinkRecord_MarshalBinary l), None)"
  by (simp add: manageRecordRequest_MarshalBinary_def LinkRecord_MarshalBinary_def split: prod.split)

lemma cmds_distinct:
  "CmdGetNextAllLink \<noteq> CmdGetFirstAllLink" "CmdManageAllLinkRecord \<noteq> CmdGetFirstAllLink"
  "CmdManageAllLinkRecord \<noteq> CmdGetNextAllLink"
  by (simp_all add: CmdGetNextAllLink_def CmdGetFirstAllLink_def CmdManageAllLinkRecord_def)

lemma link_cmds_distinct:
  "LinkCmdModFirstCtrl \<noteq> LinkCmdDeleteFirst" "LinkCmdModFirstResp \<noteq> LinkCmdDeleteFirst"
  "LinkCmdModFirstResp \<noteq> LinkCmdModFirstCtrl"
  by (simp_all add: LinkCmdModFirstCtrl_def LinkCmdDeleteFirst_def LinkCmdModFirstResp_def)

lemma Send_at_once:
  "txPktCh plm p s = (at_once r, s') \<Longrightarrow> Send plm p s = ((Some r, None), s')"
  by (auto simp: Send_def at_once_def select_timeout_def)

subsection \<open>The modem reads back its table\<close>

lemma Modem_sel:
  "timeout (Modem d) = d" "txPktCh (Modem d) = modem_request"
  "Subscribe (Modem d) m = m" "Unsubscribe (Modem d) m = m"
  "rrCh (Modem d) m =
     (case responses m of [] \<Rightarrow> (None, m) | r # rest \<Rightarrow> (Some r, m\<lparr>responses := rest\<rparr>))"
  by (simp_all add: Modem_def)

lemma payload_record_response: "payload (record_response l) = fst (LinkRecord_MarshalBinary l)"
  by (simp add: record_response_def)

lemma Send_Modem_next:
  "Send (Modem d) (Packet0\<lparr>Command := CmdGetNextAllLink\<rparr>) m =
     (if cursor m < length (table m) then
        ((Some (Packet0\<lparr>Command := CmdGetNextAllLink, Ack := 0x06\<rparr>), None),
         m\<lparr>cursor := cursor m + 1, responses := responses m @ [record_response (table m ! cursor m)]\<rparr>)
      else ((Some (Packet0\<lparr>Command := CmdGetNextAllLink, Ack := 0x15\<rparr>), None), m))"
  by (simp add: Send_at_once Modem_sel modem_request_def cmds_distinct ack_reply_def nak_reply_def)

lemma Links_loop_Modem:
  "k < length t \<Longrightarrow>
   Links_loop (Modem d) acc \<lparr>table = t, cursor = Suc k, responses = [record_response (t ! k)]\<rparr> =
     Some (Inr (acc @ drop k t, None), \<lparr>table = t, cursor = length t, responses = []\<rparr>)"
proof (induction "length t - k" arbitrary: k acc)
  case 0
  then show ?case by simp
next
  case (Suc n)
  show ?case
  proof (cases "Suc k < length t")
    case True
    with Suc have "n = length t - Suc k" by simp
    from Suc.hyps(1) [OF this True, of "acc @ [t ! k]"] True Suc.prems
    show ?thesis
      by (subst Links_loop.simps)
        (simp add: Modem_sel Send_Modem_next payload_record_response unmarshal_marshal NAK_Some
          Cons_nth_drop_Suc)
  next
    case False
    with Suc.prems have k: "Suc k = length t" by simp
    then have "drop k t = [t ! k]"
      by (metis Cons_nth_drop_Suc Suc.prems drop_all le_refl)
    with k show ?thesis
      by (subst Links_loop.simps)
        (simp add: Modem_sel Send_Modem_next payload_record_response unmarshal_marshal NAK_Some)
  qed
qed

lemma Links_Modem:
  "Links (Modem d) \<lparr>table = t, cursor = c, responses = []\<rparr> =
     Some (Inr (t, None), \<lparr>table = t, cursor = (if t = [] then c else length t), responses = []\<rparr>)"
proof (cases t)
  case Nil
  then show ?thesis
    by (simp add: Links_def Modem_sel
        Send_at_once [where r = "Packet0\<lparr>Command := CmdGetFirstAllLink, Ack := 0x15\<rparr>"]
        modem_request_def nak_reply_def NAK_Some)
next
  case (Cons l ls)
  have s: "Send (Modem d) (Packet0\<lparr>Command := CmdGetFirstAllLink\<rparr>)
             \<lparr>table = l # ls, cursor = c, responses = []\<rparr>
     = ((Some (Packet0\<lparr>Command := CmdGetFirstAllLink, Ack := 0x06\<rparr>), None),
        \<lparr>table = l # ls, cursor = Suc 0, responses = [record_response ((l # ls) ! 0)]\<rparr>)"
    by (simp add: Send_at_once Modem_sel modem_request_def ack_reply_def)
  have "0 < length (l # ls)" by simp
  note Links_loop_Modem [OF this, of d "[]"]
  with s Cons show ?thesis
    by (simp add: Links_def Modem_sel NAK_Some)
qed

text \<open>
  Claim C4. When the acknowledgement of the initial get-first request is a nak,
  \<open>Links\<close> returns the empty list of link records and a nil error, having sent nothing
  else.
\<close>

theorem Links_first_NAK:
  assumes "Send plm (Packet0\<lparr>Command := CmdGetFirstAllLink\<rparr>) (Subscribe plm s) = ((Some resp, err), s1)"
      and "NAK (Some resp) = Inr True"
  shows "Links plm s = Some (Inr ([], None), Unsubscribe plm s1)"
  using assms by (simp add: Links_def)

theorem Links_first_NAK_witness:
  "Send (Modem 5) (Packet0\<lparr>Command := CmdGetFirstAllLink\<rparr>) \<lparr>table = [], cursor = 0, responses = []\<rparr>
     = ((Some (Packet0\<lparr>Command := CmdGetFirstAllLink, Ack := 0x15\<rparr>), None),
        \<lparr>table = [], cursor = 0, responses = []\<rparr>)
   \<and> Links (Modem 5) \<lparr>table = [], cursor = 0, responses = []\<rparr>
     = Some (Inr ([], None), \<lparr>table = [], cursor = 0, responses = []\<rparr>)"
proof -
  have 1: "Send (Modem 5) (Packet0\<lparr>Command := CmdGetFirstAllLink\<rparr>)
             (Subscribe (Modem 5) \<lparr>table = [], cursor = 0, responses = []\<rparr>)
     = ((Some (Packet0\<lparr>Command := CmdGetFirstAllLink, Ack := 0x15\<rparr>), None),
        \<lparr>table = [], cursor = 0, responses = []\<rparr>)"
    by (simp add: Modem_sel modem_request_def nak_reply_def
        Send_at_once [where r = "Packet0\<lparr>Command := CmdGetFirstAllLink, Ack := 0x15\<rparr>"])
  have 2: "NAK (Some (Packet0\<lparr>Command := CmdGetFirstAllLink, Ack := 0x15\<rparr>)) = Inr True"
    by (simp add: NAK_Some)
  from Links_first_NAK [OF 1 2] 1 show ?thesis
    by (simp add: Modem_sel)
qed

subsection \<open>Requests that \<open>RemoveLinks\<close> sends before the restore loop\<close>

lemma logged_sel:
  "timeout (logged plm) = timeout plm"
  "txPktCh (logged plm) p (s, tr) = (case txPktCh plm p s of (ex, s') \<Rightarrow> (ex, (s', tr @ [p])))"
  "Subscribe (logged plm) (s, tr) = (Subscribe plm s, tr)"
  "Unsubscribe (logged plm) (s, tr) = (Unsubscribe plm s, tr)"
  "rrCh (logged plm) (s, tr) = (case rrCh plm s of (r, s') \<Rightarrow> (r, (s', tr)))"
  by (simp_all add: logged_def)

lemma Send_logged:
  "Send (logged plm) p (s, tr) = (case Send plm p s of (r, s') \<Rightarrow> (r, (s', tr @ [p])))"
  by (simp add: Send_def logged_sel split: prod.split option.split)

lemma not_add_request:
  "\<not> is_add_request (Packet0\<lparr>Command := CmdGetFirstAllLink\<rparr>)"
  "\<not> is_add_request (Packet0\<lparr>Command := CmdGetNextAllLink\<rparr>)"
  "\<not> is_add_request (Packet0\<lparr>Command := CmdManageAllLinkRecord, payload := LinkCmdDeleteFirst # bs\<rparr>)"
  by (simp_all add: is_add_request_def cmds_distinct [symmetric] link_cmds_distinct [symmetric])

lemma Links_loop_logged:
  assumes "Links_loop (logged plm) links st = Some y"
  shows "filter is_add_request (snd (snd y)) = filter is_add_request (snd st)"
proof -
  let ?P = "\<lambda>pl (links :: LinkRecord list) (st :: 'a \<times> Packet list)
              (y :: (fault + LinkRecord list \<times> error option) \<times> 'a \<times> Packet list).
              pl = logged plm \<longrightarrow>
              filter is_add_request (snd (snd y)) = filter is_add_request (snd st)"
  have "?P (logged plm) links st y"
  proof (rule Links_loop.raw_induct [where P = ?P, OF _ assms], goal_cases)
    case (1 loop pl links st y)
    show ?case
    proof
      assume pl: "pl = logged plm"
      obtain s tr where st: "st = (s, tr)" by (cases st)
      from 1(2) show "filter is_add_request (snd (snd y)) = filter is_add_request (snd st)"
        unfolding pl st
        by (auto simp: logged_sel Send_logged not_add_request
            split: prod.splits option.splits sum.splits if_splits dest!: 1(1) [unfolded pl])
    qed
  qed
  then show ?thesis by simp
qed

lemma Links_logged:
  assumes "Links (logged plm) (s, tr) = Some (r, (s', tr'))"
  shows "filter is_add_request tr' = filter is_add_request tr"
  using assms
  by (auto simp: Links_def logged_sel Send_logged not_add_request
      split: prod.splits option.splits sum.splits if_splits dest!: Links_loop_logged)

lemma delete_loop_logged:
  "delete_loop (logged plm) oldLink n (s, tr) = (err, (s', tr')) \<Longrightarrow>
   filter is_add_request tr' = filter is_add_request tr"
proof (induction n arbitrary: s tr)
  case 0
  then show ?case by simp
next
  case (Suc n)
  then show ?case
    by (auto simp: mrr_marshal Send_logged not_add_request split: prod.splits if_splits)
qed

lemma RemoveLinks_loop_logged:
  "RemoveLinks_loop (logged plm) oldLinks err deletedLinks (s, tr) = Some (r, (s', tr')) \<Longrightarrow>
   filter is_add_request tr' = filter is_add_request tr"
proof (induction oldLinks arbitrary: err deletedLinks s tr)
  case Nil
  then show ?case by simp
next
  case (Cons oldLink rest)
  from Cons.prems show ?case
    by (auto split: option.splits sum.splits prod.splits if_splits
        dest!: Links_logged delete_loop_logged Cons.IH)
qed

text \<open>
  Claim C2, as amended. When the re-read of the table fails for a target, the batch
  ends there: whatever the loop variables hold, \<open>RemoveLinks\<close> returns that error in
  the state the failed read left, with nothing sent after it. And whenever
  \<open>RemoveLinks\<close> returns an error, the restore loop has not run: no add request is
  among the packets it handed to \<open>Send\<close>.
\<close>

theorem RemoveLinks_error_skips_restore:
  "(Links plm s = Some (Inr (links, Some e), s') \<longrightarrow>
      RemoveLinks_from plm (oldLink # rest) err deletedLinks s = Some (Inr (Some e), s'))
   \<and> (RemoveLinks_from (logged plm) oldLinks err deletedLinks (s, tr)
         = Some (Inr (Some e), (s'', tr')) \<longrightarrow>
      filter is_add_request tr' = filter is_add_request tr)"
proof (intro conjI impI)
  assume "Links plm s = Some (Inr (links, Some e), s')"
  then show "RemoveLinks_from plm (oldLink # rest) err deletedLinks s = Some (Inr (Some e), s')"
    by (simp add: RemoveLinks_from_def)
next
  assume "RemoveLinks_from (logged plm) oldLinks err deletedLinks (s, tr)
            = Some (Inr (Some e), (s'', tr'))"
  then show "filter is_add_request tr' = filter is_add_request tr"
    by (auto simp: RemoveLinks_from_def split: option.splits sum.splits prod.splits if_splits
        dest!: RemoveLinks_loop_logged)
qed

theorem RemoveLinks_error_skips_restore_witness:
  "Links (Scripted 5) \<lparr>replies = [acked], records = [], sent = []\<rparr>
     = Some (Inr ([], Some ErrReadTimeout),
             \<lparr>replies = [], records = [], sent = [Packet0\<lparr>Command := CmdGetFirstAllLink\<rparr>]\<rparr>)
   \<and> RemoveLinks (Scripted 5) [ex_A, ex_B] \<lparr>replies = [acked], records = [], sent = []\<rparr>
     = Some (Inr (Some ErrReadTimeout),
             \<lparr>replies = [], records = [], sent = [Packet0\<lparr>Command := CmdGetFirstAllLink\<rparr>]\<rparr>)
   \<and> RemoveLinks (logged (Scripted 5)) [ex_A]
       (\<lparr>replies = [acked, acked, naked, unanswered],
         records = [Some (record_response ex_A), Some (record_response ex_A2)], sent = []\<rparr>, [])
     = Some (Inr (Some ErrAckTimeout),
             (\<lparr>replies = [], records = [],
               sent = [Packet0\<lparr>Command := CmdGetFirstAllLink\<rparr>, Packet0\<lparr>Command := CmdGetNextAllLink\<rparr>,
                       Packet0\<lparr>Command := CmdGetNextAllLink\<rparr>,
                       Packet0\<lparr>Command := CmdManageAllLinkRecord,
                         payload := [0x80, 0xE2, 1, 0x11, 0x22, 0x33, 1, 2, 3]\<rparr>]\<rparr>,
              [Packet0\<lparr>Command := CmdGetFirstAllLink\<rparr>, Packet0\<lparr>Command := CmdGetNextAllLink\<rparr>,
               Packet0\<lparr>Command := CmdGetNextAllLink\<rparr>,
               Packet0\<lparr>Command := CmdManageAllLinkRecord,
                 payload := [0x80, 0xE2, 1, 0x11, 0x22, 0x33, 1, 2, 3]\<rparr>]))
   \<and> filter is_add_request
        [Packet0\<lparr>Command := CmdGetFirstAllLink\<rparr>, Packet0\<lparr>Command := CmdGetNextAllLink\<rparr>,
         Packet0\<lparr>Command := CmdGetNextAllLink\<rparr>,
         Packet0\<lparr>Command := CmdManageAllLinkRecord,
           payload := [0x80, 0xE2, 1, 0x11, 0x22, 0x33, 1, 2, 3]\<rparr>] = []"
proof -
  have 1: "Links (Scripted 5) \<lparr>replies = [acked], records = [], sent = []\<rparr>
     = Some (Inr ([], Some ErrReadTimeout),
             \<lparr>replies = [], records = [], sent = [Packet0\<lparr>Command := CmdGetFirstAllLink\<rparr>]\<rparr>)"
    by code_simp
  have 2: "RemoveLinks_from (logged (Scripted 5)) [ex_A] None []
       (\<lparr>replies = [acked, acked, naked, unanswered],
         records = [Some (record_response ex_A), Some (record_response ex_A2)], sent = []\<rparr>, [])
     = Some (Inr (Some ErrAckTimeout),
             (\<lparr>replies = [], records = [],
               sent = [Packet0\<lparr>Command := CmdGetFirstAllLink\<rparr>, Packet0\<lparr>Command := CmdGetNextAllLink\<rparr>,
                       Packet0\<lparr>Command := CmdGetNextAllLink\<rparr>,
                       Packet0\<lparr>Command := CmdManageAllLinkRecord,
                         payload := [0x80, 0xE2, 1, 0x11, 0x22, 0x33, 1, 2, 3]\<rparr>]\<rparr>,
              [Packet0\<lparr>Command := CmdGetFirstAllLink\<rparr>, Packet0\<lparr>Command := CmdGetNextAllLink\<rparr>,
               Packet0\<lparr>Command := CmdGetNextAllLink\<rparr>,
               Packet0\<lparr>Command := CmdManageAllLinkRecord,
                 payload := [0x80, 0xE2, 1, 0x11, 0x22, 0x33, 1, 2, 3]\<rparr>]))"
    by code_simp
  note w = RemoveLinks_error_skips_restore [of "Scripted 5" _ _ _ _ _ _ None "[]"]
  from w [THEN conjunct1, rule_format, OF 1, of ex_A "[ex_B]"]
       w [THEN conjunct2, rule_format, OF 2] 1 2
  show ?thesis
    by (simp add: RemoveLinks_def)
qed

text \<open>
  The claim as stated fails: a delete request that times out after the supplanted
  record \<open>ex_A2\<close> has been collected makes \<open>RemoveLinks\<close> return the error with no add
  request sent.
\<close>

theorem RemoveLinks_restores_after_error_counterexample:
  "RemoveLinks_loop (Scripted 5) [ex_A] None []
       \<lparr>replies = [acked, acked, naked, unanswered],
        records = [Some (record_response ex_A), Some (record_response ex_A2)], sent = []\<rparr>
     = Some (Inr ([ex_A2], Some ErrAckTimeout),
             \<lparr>replies = [], records = [],
              sent = [Packet0\<lparr>Command := CmdGetFirstAllLink\<rparr>, Packet0\<lparr>Command := CmdGetNextAllLink\<rparr>,
                      Packet0\<lparr>Command := CmdGetNextAllLink\<rparr>,
                      Packet0\<lparr>Command := CmdManageAllLinkRecord,
                        payload := [0x80, 0xE2, 1, 0x11, 0x22, 0x33, 1, 2, 3]\<rparr>]\<rparr>)
   \<and> RemoveLinks (Scripted 5) [ex_A]
       \<lparr>replies = [acked, acked, naked, unanswered],
        records = [Some (record_response ex_A), Some (record_response ex_A2)], sent = []\<rparr>
     = Some (Inr (Some ErrAckTimeout),
             \<lparr>replies = [], records = [],
              sent = [Packet0\<lparr>Command := CmdGetFirstAllLink\<rparr>, Packet0\<lparr>Command := CmdGetNextAllLink\<rparr>,
                      Packet0\<lparr>Command := CmdGetNextAllLink\<rparr>,
                      Packet0\<lparr>Command := CmdManageAllLinkRecord,
                        payload := [0x80, 0xE2, 1, 0x11, 0x22, 0x33, 1, 2, 3]\<rparr>]\<rparr>)
   \<and> \<not> list_ex is_add_request
        [Packet0\<lparr>Command := CmdGetFirstAllLink\<rparr>, Packet0\<lparr>Command := CmdGetNextAllLink\<rparr>,
         Packet0\<lparr>Command := CmdGetNextAllLink\<rparr>,
         Packet0\<lparr>Command := CmdManageAllLinkRecord,
           payload := [0x80, 0xE2, 1, 0x11, 0x22, 0x33, 1, 2, 3]\<rparr>]"
  by code_simp

text \<open>
  A delete request that fails ends the delete loop of its target only: the next
  target is processed, its re-read assigns \<open>err\<close> anew, and here \<open>RemoveLinks\<close> returns
  nil although the delete request for \<open>ex_A\<close> timed out.
\<close>

lemma RemoveLinks_failed_delete_goes_on:
  "RemoveLinks (Scripted 5) [ex_A, ex_B]
       \<lparr>replies = [acked, naked, unanswered, naked],
        records = [Some (record_response ex_A)], sent = []\<rparr>
     = Some (Inr None,
             \<lparr>replies = [], records = [],
              sent = [Packet0\<lparr>Command := CmdGetFirstAllLink\<rparr>, Packet0\<lparr>Command := CmdGetNextAllLink\<rparr>,
                      Packet0\<lparr>Command := CmdManageAllLinkRecord,
                        payload := [0x80, 0xE2, 1, 0x11, 0x22, 0x33, 1, 2, 3]\<rparr>,
                      Packet0\<lparr>Command := CmdGetFirstAllLink\<rparr>]\<rparr>)"
  by code_simp

lemma AddLink_Send:
  "AddLink plm l s =
     (case Send plm (AddLink_request l) s of
        ((None, err), s1) \<Rightarrow> (Inl NilPointerDereference, s1)
      | ((Some r, err), s1) \<Rightarrow> (Inr (if Ack r = 0x15 then Some ErrAddLink else err), s1))"
  by (simp add: AddLink_def AddLink_request_def NAK_def Let_def split: prod.split option.split)


lemma restore_not_acked_panics:
  "\<not> restore_acked plm ds s \<Longrightarrow> \<exists>s'. restore plm ds s = (Inl NilPointerDereference, s')"
proof (induction ds arbitrary: s)
  case Nil
  then show ?case by simp
next
  case (Cons l ds)
  obtain resp err s1 where snd: "Send plm (AddLink_request l) s = ((resp, err), s1)"
    by (cases "Send plm (AddLink_request l) s") auto
  show ?case
  proof (cases resp)
    case None
    with snd show ?thesis by (simp add: AddLink_Send)
  next
    case (Some r)
    with snd Cons.prems have "\<not> restore_acked plm ds s1" by simp
    from Cons.IH [OF this] snd Some show ?thesis by (simp add: AddLink_Send)
  qed
qed




subsection \<open>\<open>RemoveLinks\<close> and \<open>Cleanup\<close> against the modem\<close>

lemma Send_Modem_delete:
  "\<exists>r. Send (Modem d)
      (Packet0\<lparr>Command := CmdManageAllLinkRecord,
         payload := LinkCmdDeleteFirst # fst (LinkRecord_MarshalBinary k)\<rparr>) m
    = ((Some r, None), m\<lparr>table := drop_match k (table m)\<rparr>)"
proof (cases "delete_first k (table m)")
  case None
  have "txPktCh (Modem d)
      (Packet0\<lparr>Command := CmdManageAllLinkRecord,
         payload := LinkCmdDeleteFirst # fst (LinkRecord_MarshalBinary k)\<rparr>) m
     = (at_once (Packet0\<lparr>Command := CmdManageAllLinkRecord,
          payload := LinkCmdDeleteFirst # fst (LinkRecord_MarshalBinary k), Ack := 0x15\<rparr>),
        m\<lparr>table := drop_match k (table m)\<rparr>)"
    using None
    by (simp add: Modem_sel modem_request_def cmds_distinct unmarshal_marshal drop_match_def
        nak_reply_def)
  from Send_at_once [OF this] show ?thesis by blast
next
  case (Some t')
  have "txPktCh (Modem d)
      (Packet0\<lparr>Command := CmdManageAllLinkRecord,
         payload := LinkCmdDeleteFirst # fst (LinkRecord_MarshalBinary k)\<rparr>) m
     = (at_once (Packet0\<lparr>Command := CmdManageAllLinkRecord,
          payload := LinkCmdDeleteFirst # fst (LinkRecord_MarshalBinary k), Ack := 0x06\<rparr>),
        m\<lparr>table := drop_match k (table m)\<rparr>)"
    using Some
    by (simp add: Modem_sel modem_request_def cmds_distinct unmarshal_marshal drop_match_def
        ack_reply_def)
  from Send_at_once [OF this] show ?thesis by blast
qed

lemma delete_loop_Modem:
  "delete_loop (Modem d) k n m = (None, m\<lparr>table := (drop_match k ^^ n) (table m)\<rparr>)"
proof (induction n arbitrary: m)
  case 0
  show ?case by simp
next
  case (Suc n)
  obtain r where "Send (Modem d)
      (Packet0\<lparr>Command := CmdManageAllLinkRecord,
         payload := LinkCmdDeleteFirst # fst (LinkRecord_MarshalBinary k)\<rparr>) m
    = ((Some r, None), m\<lparr>table := drop_match k (table m)\<rparr>)"
    using Send_Modem_delete by blast
  then show ?case
    by (simp add: mrr_marshal Suc.IH funpow_swap1)
qed

lemma AddLink_Modem:
  "AddLink (Modem d) l m = (Inr None, m\<lparr>table := modify_first (Controller (Flags l)) l (table m)\<rparr>)"
proof -
  let ?c = "if Controller (Flags l) then LinkCmdModFirstCtrl else LinkCmdModFirstResp"
  let ?p = "Packet0\<lparr>Command := CmdManageAllLinkRecord, payload := ?c # fst (LinkRecord_MarshalBinary l)\<rparr>"
  have "Send (Modem d) ?p m = ((Some (?p\<lparr>Ack := 0x06\<rparr>), None),
          m\<lparr>table := modify_first (Controller (Flags l)) l (table m)\<rparr>)"
    by (rule Send_at_once)
      (simp add: Modem_sel modem_request_def cmds_distinct unmarshal_marshal ack_reply_def
        link_cmds_distinct)
  then show ?thesis
    by (simp add: AddLink_def mrr_marshal NAK_Some Let_def)
qed

lemma RemoveLinks_one:
  assumes "count_matches old t (0, []) = (n, ds)"
  shows "RemoveLinks (Modem d) [old] \<lparr>table = t, cursor = c, responses = []\<rparr> =
     (case restore (Modem d) ds
        \<lparr>table = (drop_match old ^^ n) t, cursor = (if t = [] then c else length t),
         responses = []\<rparr> of
        (Inl f, s2) \<Rightarrow> Some (Inl f, s2)
      | (Inr u, s2) \<Rightarrow> Some (Inr None, s2))"
  by (simp add: RemoveLinks_def RemoveLinks_from_def Links_Modem assms delete_loop_Modem
      del: count_matches.simps)

lemma count_matches_pair:
  assumes "Group r1 = Group r2" and "Address r1 = Address r2" and "Data r1 \<noteq> Data r2"
  shows "count_matches r1 [r1, r2] (0, []) = (2, [r2])"
    and "count_matches r2 [r1, r2] (0, []) = (2, [r1])"
  using assms by (auto simp: Equal_def)

lemma drop_match_pair:
  assumes "Group r1 = Group r2" and "Address r1 = Address r2"
  shows "drop_match r1 (drop_match r1 [r1, r2]) = []"
    and "drop_match r2 (drop_match r2 [r1, r2]) = []"
  using assms by (simp_all add: drop_match_def)

text \<open>
  Claim C3. The modem's table holds exactly two records of the same group and
  address and with different data. \<open>RemoveLinks\<close> of either one returns without an
  error and leaves a table that holds the other record, unchanged, and nothing else:
  both records are deleted by the two delete-first requests, and the other one is
  added again.
\<close>

theorem RemoveLinks_restores_other:
  assumes "Group r1 = Group r2" and "Address r1 = Address r2" and "Data r1 \<noteq> Data r2"
  shows "RemoveLinks (Modem d) [r1] \<lparr>table = [r1, r2], cursor = 0, responses = []\<rparr> =
           Some (Inr None, \<lparr>table = [r2], cursor = 2, responses = []\<rparr>)
       \<and> RemoveLinks (Modem d) [r2] \<lparr>table = [r1, r2], cursor = 0, responses = []\<rparr> =
           Some (Inr None, \<lparr>table = [r1], cursor = 2, responses = []\<rparr>)"
  using RemoveLinks_one [OF count_matches_pair(1) [OF assms], of d 0]
    RemoveLinks_one [OF count_matches_pair(2) [OF assms], of d 0]
  by (simp add: drop_match_pair [OF assms(1,2)] AddLink_Modem eval_nat_numeral)

theorem RemoveLinks_restores_other_witness:
  "Group ex_A = Group ex_A2 \<and> Address ex_A = Address ex_A2 \<and> Data ex_A \<noteq> Data ex_A2
   \<and> RemoveLinks (Modem 5) [ex_A] \<lparr>table = [ex_A, ex_A2], cursor = 0, responses = []\<rparr> =
           Some (Inr None, \<lparr>table = [ex_A2], cursor = 2, responses = []\<rparr>)
   \<and> RemoveLinks (Modem 5) [ex_A2] \<lparr>table = [ex_A, ex_A2], cursor = 0, responses = []\<rparr> =
           Some (Inr None, \<lparr>table = [ex_A], cursor = 2, responses = []\<rparr>)"
proof -
  have h: "Group ex_A = Group ex_A2" "Address ex_A = Address ex_A2" "Data ex_A \<noteq> Data ex_A2"
    by (simp_all add: ex_A_def ex_A2_def)
  from RemoveLinks_restores_other [OF h, of 5] h show ?thesis by simp
qed

text \<open>
  The requests of that run, by command and payload: the table is read, the target is
  deleted twice, and the other record is added again with the controller sub-command.
\<close>

lemma RemoveLinks_pair_requests:
  "map_option (\<lambda>(r, m, tr). (r, table m, map (\<lambda>p. (Command p, payload p)) tr))
     (RemoveLinks (logged (Modem 5)) [ex_A]
        (\<lparr>table = [ex_A, ex_A2], cursor = 0, responses = []\<rparr>, []))
   = Some (Inr None, [ex_A2],
       [(0x69, []), (0x6A, []), (0x6A, []),
        (0x6F, [0x80, 0xE2, 1, 0x11, 0x22, 0x33, 1, 2, 3]),
        (0x6F, [0x80, 0xE2, 1, 0x11, 0x22, 0x33, 1, 2, 3]),
        (0x6F, [0x40, 0xE2, 1, 0x11, 0x22, 0x33, 9, 9, 9])])"
  by code_simp

lemma Cleanup_steps:
  assumes "Equal A A'"
      and "Group B \<noteq> Group A \<or> Address B \<noteq> Address A"
      and "Group C \<noteq> Group A \<or> Address C \<noteq> Address A"
      and "\<not> Equal B C"
  shows "duplicates [A, B, A', C] = [A']"
    and "count_matches A' [A, B, A', C] (0, []) = (2, [])"
    and "drop_match A' (drop_match A' [A, B, A', C]) = [B, C]"
proof -
  from assms(1) have g: "Group A' = Group A" "Address A' = Address A"
    by (simp_all add: Equal_def)
  from assms(1) have e: "Equal A' A" by (auto simp: Equal_def)
  from assms(2) g have b: "\<not> Equal A B" "\<not> Equal B A'" by (auto simp: Equal_def)
  from assms(3) g have c: "\<not> Equal A C" "\<not> Equal A' C" by (auto simp: Equal_def)
  show "duplicates [A, B, A', C] = [A']"
    using assms(1,4) b c by simp
  have e': "Equal A' A'" by (simp add: Equal_def)
  show "count_matches A' [A, B, A', C] (0, []) = (2, [])"
    using assms(2,3) g e e' by auto
  show "drop_match A' (drop_match A' [A, B, A', C]) = [B, C]"
    using assms(2,3) g by (auto simp: drop_match_def)
qed

text \<open>
  Claim C1 does not hold of the code. On a table \<open>[A, B, A', C]\<close> with \<open>A\<close> and \<open>A'\<close>
  content-equal, and \<open>B\<close> and \<open>C\<close> of another group or address and not content-equal to
  each other, \<open>Cleanup\<close> terminates without an error and leaves the table \<open>[B, C]\<close>:
  \<open>RemoveLinks\<close> of \<open>A'\<close> counts two matches, sends two delete-first requests, and
  restores nothing, since both deleted records are content-equal to its target.
\<close>

theorem Cleanup_removes_both_copies:
  assumes "Equal A A'"
      and "Group B \<noteq> Group A \<or> Address B \<noteq> Address A"
      and "Group C \<noteq> Group A \<or> Address C \<noteq> Address A"
      and "\<not> Equal B C"
  shows "Cleanup (Modem d) \<lparr>table = [A, B, A', C], cursor = 0, responses = []\<rparr> =
           Some (Inr None, \<lparr>table = [B, C], cursor = 4, responses = []\<rparr>)"
  using RemoveLinks_one [OF Cleanup_steps(2) [OF assms], of d 4]
  by (simp add: Cleanup_def Links_Modem Cleanup_steps(1) [OF assms] Cleanup_steps(3) [OF assms]
      eval_nat_numeral del: duplicates.simps count_matches.simps)

theorem Cleanup_removes_both_copies_witness:
  "Equal ex_A ex_A' \<and> ex_A \<noteq> ex_A' \<and> \<not> Equal ex_A ex_B \<and> \<not> Equal ex_A ex_C
   \<and> Cleanup (Modem 5) \<lparr>table = [ex_A, ex_B, ex_A', ex_C], cursor = 0, responses = []\<rparr> =
           Some (Inr None, \<lparr>table = [ex_B, ex_C], cursor = 4, responses = []\<rparr>)"
proof -
  have h: "Equal ex_A ex_A'" "Group ex_B \<noteq> Group ex_A \<or> Address ex_B \<noteq> Address ex_A"
    "Group ex_C \<noteq> Group ex_A \<or> Address ex_C \<noteq> Address ex_A" "\<not> Equal ex_B ex_C"
    by (simp_all add: Equal_def Controller_def ex_A_def ex_A'_def ex_B_def ex_C_def)
  have n: "ex_A \<noteq> ex_A'" "\<not> Equal ex_A ex_B" "\<not> Equal ex_A ex_C"
    by (simp_all add: Equal_def ex_A_def ex_A'_def ex_B_def ex_C_def)
  from Cleanup_removes_both_copies [OF h, of 5] h(1) n show ?thesis by simp
qed

text \<open>
  The requests of that run: two reads of the table, then two delete-first requests
  for \<open>ex_A'\<close> and no add request.
\<close>

lemma Cleanup_requests:
  "map_option (\<lambda>(r, m, tr). (r, table m, map (\<lambda>p. (Command p, payload p)) tr))
     (Cleanup (logged (Modem 5))
        (\<lparr>table = [ex_A, ex_B, ex_A', ex_C], cursor = 0, responses = []\<rparr>, []))
   = Some (Inr None, [ex_B, ex_C],
       [(0x69, []), (0x6A, []), (0x6A, []), (0x6A, []), (0x6A, []),
        (0x69, []), (0x6A, []), (0x6A, []), (0x6A, []), (0x6A, []),
        (0x6F, [0x80, 0xC2, 1, 0x11, 0x22, 0x33, 1, 2, 3]),
        (0x6F, [0x80, 0xC2, 1, 0x11, 0x22, 0x33, 1, 2, 3])])"
  by code_simp

section \<open>Properties of the Dispatcher\<close>

lemma chan_send_closed: "chan_send c p = Some c' \<Longrightarrow> closed c' = closed c"
  by (auto simp: chan_send_def split: if_splits)

lemma readWriteLoop_step_plmCh_open:
  assumes "readWriteLoop_step MarshalBinary ev st = Next st'"
  shows "closed (plmCh st') = closed (plmCh st)"
proof (cases ev)
  case (TxPkt send)
  with assms show ?thesis
    by (auto simp: readWriteLoop_step_def Logf_def writePacket_def Let_def split: prod.splits if_splits)
next
  case (RxPkt pkt)
  show ?thesis
  proof (cases "Command pkt = 0x50 \<or> Command pkt = 0x51")
    case True
    with assms RxPkt show ?thesis
      by (auto simp: readWriteLoop_step_def Logf_def Let_def
          split: Payload_t.splits option.splits if_splits)
  next
    case other: False
    show ?thesis
    proof (cases "0x52 \<le> Command pkt \<and> Command pkt \<le> 0x58")
      case True
      with assms RxPkt other show ?thesis
        by (auto simp: readWriteLoop_step_def Logf_def Let_def
            split: option.splits if_splits dest: chan_send_closed)
    next
      case False
      with assms RxPkt other show ?thesis
        by (auto simp: readWriteLoop_step_def Logf_def Let_def split: option.splits if_splits)
    qed
  qed
next
  case (Connection info)
  with assms show ?thesis
    by (auto simp: readWriteLoop_step_def Logf_def Let_def)
qed

text \<open>
  Claim C8. On an inbound packet whose command lies in 0x52..0x58 the Dispatcher's
  iteration always ends with a next state: it neither blocks nor panics (the
  modem-class channel is never closed by the program). When no receiver waits on the
  modem-class channel and its queue is full, the next state is the old one with the
  two log lines of the iteration added: the packet is dropped. Otherwise the packet
  goes into the channel.
\<close>

theorem modem_class_nonblocking:
  assumes "0x52 \<le> Command pkt" and "Command pkt \<le> 0x58" and "\<not> closed (plmCh st)"
  shows "(\<exists>st'. readWriteLoop_step MarshalBinary (RxPkt pkt) st = Next st')
       \<and> (receivers (plmCh st) = 0 \<and> cap (plmCh st) \<le> length (queue (plmCh st)) \<longrightarrow>
           readWriteLoop_step MarshalBinary (RxPkt pkt) st =
             Next (st\<lparr>log := log st @ [Debugf ''readWriteLoop wait...'',
                      Infof ''Received modem response, but no one was listening for it'']\<rparr>))
       \<and> (chan_send (plmCh st) pkt = Some c' \<longrightarrow>
           readWriteLoop_step MarshalBinary (RxPkt pkt) st =
             Next (st\<lparr>plmCh := c', log := log st @ [Debugf ''readWriteLoop wait...'']\<rparr>))"
proof -
  from assms(1) have ne: "Command pkt \<noteq> 0x50" "Command pkt \<noteq> 0x51" by auto
  have 1: "\<exists>st'. readWriteLoop_step MarshalBinary (RxPkt pkt) st = Next st'"
    using assms ne by (simp add: readWriteLoop_step_def Logf_def Let_def split: option.split)
  have 2: "receivers (plmCh st) = 0 \<and> cap (plmCh st) \<le> length (queue (plmCh st)) \<longrightarrow>
         readWriteLoop_step MarshalBinary (RxPkt pkt) st =
           Next (st\<lparr>log := log st @ [Debugf ''readWriteLoop wait...'',
                    Infof ''Received modem response, but no one was listening for it'']\<rparr>)"
    using assms ne by (simp add: readWriteLoop_step_def Logf_def Let_def chan_send_def)
  have 3: "chan_send (plmCh st) pkt = Some c' \<longrightarrow>
           readWriteLoop_step MarshalBinary (RxPkt pkt) st =
             Next (st\<lparr>plmCh := c', log := log st @ [Debugf ''readWriteLoop wait...'']\<rparr>)"
    using assms ne by (simp add: readWriteLoop_step_def Logf_def Let_def)
  from 1 2 3 show ?thesis by blast
qed

theorem modem_class_nonblocking_witness:
  "readWriteLoop_step (\<lambda>p. ([], None)) (RxPkt (Packet0\<lparr>Command := 0x57\<rparr>))
     \<lparr>connections = Map.empty, ackChannels = Map.empty, chans = Map.empty,
      plmCh = \<lparr>queue = [Packet0\<lparr>Command := 0x53\<rparr>], cap = 1, receivers = 0, handed = [],
               closed = False\<rparr>,
      out = [], log = []\<rparr>
   = Next
     \<lparr>connections = Map.empty, ackChannels = Map.empty, chans = Map.empty,
      plmCh = \<lparr>queue = [Packet0\<lparr>Command := 0x53\<rparr>], cap = 1, receivers = 0, handed = [],
               closed = False\<rparr>,
      out = [],
      log = [Debugf ''readWriteLoop wait...'',
             Infof ''Received modem response, but no one was listening for it'']\<rparr>"
  using modem_class_nonblocking [of "Packet0\<lparr>Command := 0x57\<rparr>"
    "\<lparr>connections = Map.empty, ackChannels = Map.empty, chans = Map.empty,
      plmCh = \<lparr>queue = [Packet0\<lparr>Command := 0x53\<rparr>], cap = 1, receivers = 0, handed = [],
               closed = False\<rparr>,
      out = [], log = []\<rparr>" "\<lambda>p. ([], None)"]
  by simp

end
